theory Spec2Isabelle
  imports Main "HOL-Library.Word"
begin

section \<open>Strings and bytes of the Python runtime\<close>

text \<open>
  The program is \<^verbatim>\<open>main.py\<close>, a command-line driver that writes one colour packet to a
  USB device. A Python \<^verbatim>\<open>str\<close> is modelled as a list of 8-bit characters, each read as
  the code point of that number (the code points below 256); \<^verbatim>\<open>bytes\<close> is a list of
  8-bit words. \<^verbatim>\<open>bytes.fromhex\<close> rejects every string holding a code point above 127,
  so every string that decodes is covered exactly.
\<close>

type_synonym byte = "8 word"

text \<open>
  Exceptions that reach the code: the two \<^verbatim>\<open>ValueError\<close>s the source raises itself
  (line 54, with the identifiers of its message, and line 65), \<^verbatim>\<open>usb.core.USBError\<close>,
  which the source catches by name, and any other exception a library call raises.
\<close>

datatype py_exception =
    DeviceNotFound int int
  | InvalidHexData
  | USBError
  | OtherException

text \<open>\<^verbatim>\<open>Py_ISSPACE\<close>: the ASCII whitespace that \<^verbatim>\<open>bytes.fromhex\<close> skips.\<close>

definition is_space :: "char \<Rightarrow> bool" where
  "is_space c = (let n = (of_char c :: nat) in (9 \<le> n \<and> n \<le> 13) \<or> n = 32)"

text \<open>The value of a hexadecimal digit (\<^verbatim>\<open>0-9\<close>, \<^verbatim>\<open>a-f\<close>, \<^verbatim>\<open>A-F\<close>), if the character is one.\<close>

definition digit_value :: "char \<Rightarrow> nat option" where
  "digit_value c =
     (let n = (of_char c :: nat) in
      if 48 \<le> n \<and> n \<le> 57 then Some (n - 48)
      else if 97 \<le> n \<and> n \<le> 102 then Some (n - 87)
      else if 65 \<le> n \<and> n \<le> 70 then Some (n - 55)
      else None)"

definition is_hex_digit :: "char \<Rightarrow> bool" where
  "is_hex_digit c = (digit_value c \<noteq> None)"

text \<open>
  \<^verbatim>\<open>bytes.fromhex(s)\<close>: two hexadecimal digits per byte; ASCII whitespace is skipped
  before a byte, never between the two digits of one. \<open>None\<close> is the \<^verbatim>\<open>ValueError\<close>
  it raises on any other character and on a digit left without its partner.
\<close>

fun fromhex :: "string \<Rightarrow> byte list option" where
  "fromhex [] = Some []"
| "fromhex (c # cs) =
     (if is_space c then fromhex cs
      else (case digit_value c of
              None \<Rightarrow> None
            | Some hi \<Rightarrow>
                (case cs of
                   [] \<Rightarrow> None
                 | d # ds \<Rightarrow>
                     (case digit_value d of
                        None \<Rightarrow> None
                      | Some lo \<Rightarrow>
                          (case fromhex ds of
                             None \<Rightarrow> None
                           | Some bs \<Rightarrow> Some (of_nat (16 * hi + lo) # bs))))))"

text \<open>\<^verbatim>\<open>str.lower()\<close> on the code points below 256: the letters \<^verbatim>\<open>A-Z\<close> and the
  accented capitals 192 to 222 (without the multiplication sign 215) move up by 32.\<close>

definition lower_char :: "char \<Rightarrow> char" where
  "lower_char c =
     (let n = (of_char c :: nat) in
      if (65 \<le> n \<and> n \<le> 90) \<or> (192 \<le> n \<and> n \<le> 222 \<and> n \<noteq> 215)
      then char_of (n + 32) else c)"

definition lower :: "string \<Rightarrow> string" where
  "lower s = map lower_char s"

text \<open>\<^verbatim>\<open>s.replace("#", "")\<close>: every occurrence of the one-character pattern is dropped.\<close>

definition replace_hash :: "string \<Rightarrow> string" where
  "replace_hash s = filter (\<lambda>c. c \<noteq> CHR ''#'') s"

section \<open>Payload construction (\<^verbatim>\<open>send_color_packet\<close>, lines 59 to 65)\<close>

definition build_payload :: "string \<Rightarrow> string \<Rightarrow> string \<Rightarrow> py_exception + byte list" where
  "build_payload header hex_color footer =
     (let hex_color' = lower (replace_hash hex_color);
          full_payload = header @ hex_color' @ footer
      in case fromhex full_payload of
           None \<Rightarrow> Inl InvalidHexData
         | Some packet_data \<Rightarrow> Inr packet_data)"

section \<open>The USB host and the outside world\<close>

text \<open>
  A device as \<^verbatim>\<open>usb.core\<close> presents it: the identifiers of its descriptor, the index of
  its product string (0 when it has none), and its address on the bus, which tells two
  devices of one vendor/product pair apart.
\<close>

record usb_dev =
  idVendor :: int
  idProduct :: int
  iProduct :: int
  address :: int

text \<open>
  A value read from the JSON configuration or given on the command line: \<^verbatim>\<open>None\<close> (JSON
  \<^verbatim>\<open>null\<close>), an integer or a string, the kinds of value that \<^verbatim>\<open>save_config\<close> writes and
  \<^verbatim>\<open>config.get\<close> returns for them.
\<close>

datatype jval = JNull | JInt int | JStr string

text \<open>The calls the program makes into the USB library, in the order it makes them.\<close>

datatype usb_call =
    Find int int
  | FindAll
  | SetConfiguration usb_dev
  | Write usb_dev jval "byte list"
  | GetString usb_dev int

text \<open>
  The host answers each call; an answer may depend on everything called before (a device
  can be unplugged between two calls), so each answer is a function of the calls so far.
  Enumeration lists the devices on the bus in the host's order, or raises; claiming the
  configuration and writing to an endpoint succeed or raise; reading a string descriptor
  gives the string or raises.
\<close>

record usb_host =
  enumerate_devices :: "usb_call list \<Rightarrow> py_exception + usb_dev list"
  set_configuration :: "usb_call list \<Rightarrow> usb_dev \<Rightarrow> py_exception option"
  endpoint_write :: "usb_call list \<Rightarrow> usb_dev \<Rightarrow> jval \<Rightarrow> byte list \<Rightarrow> py_exception option"
  get_string :: "usb_call list \<Rightarrow> usb_dev \<Rightarrow> int \<Rightarrow> py_exception + string"

text \<open>
  \<^verbatim>\<open>config.json\<close>: absent, present but not parseable, or holding a JSON object (its
  keys in order). The world is the configuration file and the log of USB calls made.
  Reading the file raises nothing but the \<^verbatim>\<open>JSONDecodeError\<close> of a file that does not
  parse.
\<close>

type_synonym json_object = "(string \<times> jval) list"

datatype file_state = NoFile | Corrupted | Stored json_object

record world =
  usb_log :: "usb_call list"
  config_file :: file_state

definition usb_core_find ::
  "usb_host \<Rightarrow> int \<Rightarrow> int \<Rightarrow> world \<Rightarrow> (py_exception + usb_dev option) \<times> world" where
  "usb_core_find host v p w =
     (let w' = w\<lparr>usb_log := usb_log w @ [Find v p]\<rparr> in
      case enumerate_devices host (usb_log w) of
        Inl e \<Rightarrow> (Inl e, w')
      | Inr devs \<Rightarrow> (Inr (List.find (\<lambda>d. idVendor d = v \<and> idProduct d = p) devs), w'))"

definition usb_core_find_all ::
  "usb_host \<Rightarrow> world \<Rightarrow> (py_exception + usb_dev list) \<times> world" where
  "usb_core_find_all host w =
     (enumerate_devices host (usb_log w), w\<lparr>usb_log := usb_log w @ [FindAll]\<rparr>)"

definition dev_set_configuration ::
  "usb_host \<Rightarrow> usb_dev \<Rightarrow> world \<Rightarrow> py_exception option \<times> world" where
  "dev_set_configuration host d w =
     (set_configuration host (usb_log w) d, w\<lparr>usb_log := usb_log w @ [SetConfiguration d]\<rparr>)"

definition dev_write ::
  "usb_host \<Rightarrow> usb_dev \<Rightarrow> jval \<Rightarrow> byte list \<Rightarrow> world \<Rightarrow> py_exception option \<times> world" where
  "dev_write host d ep packet_data w =
     (endpoint_write host (usb_log w) d ep packet_data,
      w\<lparr>usb_log := usb_log w @ [Write d ep packet_data]\<rparr>)"

definition usb_util_get_string ::
  "usb_host \<Rightarrow> usb_dev \<Rightarrow> int \<Rightarrow> world \<Rightarrow> (py_exception + string) \<times> world" where
  "usb_util_get_string host d i w =
     (get_string host (usb_log w) d i, w\<lparr>usb_log := usb_log w @ [GetString d i]\<rparr>)"

section \<open>Configuration (\<^verbatim>\<open>load_config\<close>, \<^verbatim>\<open>save_config\<close>)\<close>

definition DEFAULT_PACKET_HEADER :: string where
  "DEFAULT_PACKET_HEADER = ''018500000014030400''"

definition DEFAULT_PACKET_FOOTER :: string where
  "DEFAULT_PACKET_FOOTER =
     ''00000000000000000000000000180000000000000000000000000000000000000000000000000000000000000000000000000000''"

definition load_config :: "world \<Rightarrow> json_object" where
  "load_config w = (case config_file w of NoFile \<Rightarrow> [] | Corrupted \<Rightarrow> [] | Stored d \<Rightarrow> d)"

text \<open>
  What the file system answers when \<^verbatim>\<open>save_config\<close> opens the configuration file for
  writing (line 36) and when it writes the JSON text (line 37): nothing, or the exception
  raised.
\<close>

record file_system =
  open_for_write :: "py_exception option"
  json_dump :: "py_exception option"

text \<open>
  \<^verbatim>\<open>save_config\<close>: an \<^verbatim>\<open>open\<close> that raises leaves the file as it was; a write that raises
  leaves the file truncated, which no longer parses; otherwise the file holds the five
  keys. The exception, if any, is returned with the world.
\<close>

definition save_config ::
  "file_system \<Rightarrow> jval \<Rightarrow> jval \<Rightarrow> jval \<Rightarrow> string \<Rightarrow> string \<Rightarrow> world
     \<Rightarrow> py_exception option \<times> world" where
  "save_config fs v p ep header footer w =
     (case open_for_write fs of
        Some e \<Rightarrow> (Some e, w)
      | None \<Rightarrow>
          (case json_dump fs of
             Some e \<Rightarrow> (Some e, w\<lparr>config_file := Corrupted\<rparr>)
           | None \<Rightarrow>
               (None,
                w\<lparr>config_file := Stored
                   [(''vid'', v), (''pid'', p), (''endpoint'', ep),
                    (''packet_header'', JStr header), (''packet_footer'', JStr footer)]\<rparr>)))"

text \<open>\<^verbatim>\<open>config.get(k)\<close> and \<^verbatim>\<open>config.get(k, default)\<close>.\<close>

definition dict_get :: "json_object \<Rightarrow> string \<Rightarrow> jval" where
  "dict_get config k = (case map_of config k of None \<Rightarrow> JNull | Some x \<Rightarrow> x)"

definition dict_get_default :: "json_object \<Rightarrow> string \<Rightarrow> jval \<Rightarrow> jval" where
  "dict_get_default config k dflt = (case map_of config k of None \<Rightarrow> dflt | Some x \<Rightarrow> x)"

section \<open>The controller (\<^verbatim>\<open>class RGBDevice\<close>)\<close>

record RGBDevice =
  vid :: int
  pid :: int
  endpoint :: jval
  dev :: "usb_dev option"

text \<open>
  \<^verbatim>\<open>connect\<close> stores what \<^verbatim>\<open>usb.core.find\<close> returned before it tests it, so the object
  is returned with the result: the exception raised, or nothing.
\<close>

definition connect ::
  "usb_host \<Rightarrow> RGBDevice \<Rightarrow> world \<Rightarrow> (py_exception + unit) \<times> RGBDevice \<times> world" where
  "connect host self w =
     (case usb_core_find host (vid self) (pid self) w of
        (Inl e, w1) \<Rightarrow> (Inl e, self, w1)
      | (Inr found, w1) \<Rightarrow>
          (let self1 = self\<lparr>dev := found\<rparr> in
           case found of
             None \<Rightarrow> (Inl (DeviceNotFound (vid self) (pid self)), self1, w1)
           | Some d \<Rightarrow>
               (case dev_set_configuration host d w1 of
                  (Some e, w2) \<Rightarrow> (Inl e, self1, w2)
                | (None, w2) \<Rightarrow> (Inr (), self1, w2))))"

text \<open>
  The constructor takes each identifier as a hexadecimal string or as an integer.
  \<^verbatim>\<open>int(s, 16)\<close> is the runtime's parser, a parameter of the model: \<open>None\<close> where it
  raises.
\<close>

datatype hex_or_int = HexStr string | IntVal int

definition parse_identifier :: "(string \<Rightarrow> int option) \<Rightarrow> hex_or_int \<Rightarrow> int option" where
  "parse_identifier int16 x = (case x of HexStr s \<Rightarrow> int16 s | IntVal n \<Rightarrow> Some n)"

definition RGBDevice_init ::
  "(string \<Rightarrow> int option) \<Rightarrow> usb_host \<Rightarrow> hex_or_int \<Rightarrow> hex_or_int \<Rightarrow> jval \<Rightarrow> world
     \<Rightarrow> (py_exception + RGBDevice) \<times> world" where
  "RGBDevice_init int16 host v p ep w =
     (case parse_identifier int16 v of
        None \<Rightarrow> (Inl OtherException, w)
      | Some vi \<Rightarrow>
          (case parse_identifier int16 p of
             None \<Rightarrow> (Inl OtherException, w)
           | Some pj \<Rightarrow>
               (case connect host \<lparr>vid = vi, pid = pj, endpoint = ep, dev = None\<rparr> w of
                  (Inl e, self, w1) \<Rightarrow> (Inl e, w1)
                | (Inr u, self, w1) \<Rightarrow> (Inr self, w1))))"

text \<open>
  \<^verbatim>\<open>send_color_packet\<close>: the payload is built first; a first write that raises
  \<^verbatim>\<open>USBError\<close> is followed by one reconnect and one more write, where any exception
  gives \<^verbatim>\<open>False\<close>; any other exception of the first write propagates.
\<close>

definition send_color_packet ::
  "usb_host \<Rightarrow> RGBDevice \<Rightarrow> string \<Rightarrow> string \<Rightarrow> string \<Rightarrow> world
     \<Rightarrow> (py_exception + bool) \<times> RGBDevice \<times> world" where
  "send_color_packet host self hex_color header footer w =
     (case build_payload header hex_color footer of
        Inl e \<Rightarrow> (Inl e, self, w)
      | Inr packet_data \<Rightarrow>
          (case dev self of
             None \<Rightarrow> (Inr False, self, w)
           | Some d \<Rightarrow>
               (case dev_write host d (endpoint self) packet_data w of
                  (None, w1) \<Rightarrow> (Inr True, self, w1)
                | (Some e, w1) \<Rightarrow>
                    if e = USBError then
                      (case connect host self w1 of
                         (Inl e', self', w2) \<Rightarrow> (Inr False, self', w2)
                       | (Inr u, self', w2) \<Rightarrow>
                           (case dev self' of
                              None \<Rightarrow> (Inr False, self', w2)
                            | Some d' \<Rightarrow>
                                (case dev_write host d' (endpoint self') packet_data w2 of
                                   (None, w3) \<Rightarrow> (Inr True, self', w3)
                                 | (Some e'', w3) \<Rightarrow> (Inr False, self', w3))))
                    else (Inl e, self, w1))))"

section \<open>The command-line tools\<close>

text \<open>
  What \<^verbatim>\<open>scan_devices\<close> prints, line by line: the two heading lines, one line per device
  listed (vendor, product, product name), and the closing line when it listed none.
\<close>

datatype scan_line =
    HeaderLine
  | SeparatorLine
  | DeviceLine int int string
  | NoDevicesLine

fun scan_loop :: "usb_host \<Rightarrow> usb_dev list \<Rightarrow> world \<Rightarrow> scan_line list \<times> world" where
  "scan_loop host [] w = ([], w)"
| "scan_loop host (d # ds) w =
     (if iProduct d \<noteq> 0 then
        (case usb_util_get_string host d (iProduct d) w of
           (Inl e, w1) \<Rightarrow> scan_loop host ds w1
         | (Inr product, w1) \<Rightarrow>
             (case scan_loop host ds w1 of
                (printed, w2) \<Rightarrow> (DeviceLine (idVendor d) (idProduct d) product # printed, w2)))
      else
        (case scan_loop host ds w of
           (printed, w2) \<Rightarrow> (DeviceLine (idVendor d) (idProduct d) ''Unknown'' # printed, w2)))"

definition scan_devices :: "usb_host \<Rightarrow> world \<Rightarrow> (py_exception + scan_line list) \<times> world" where
  "scan_devices host w =
     (case usb_core_find_all host w of
        (Inl e, w1) \<Rightarrow> (Inl e, w1)
      | (Inr devices, w1) \<Rightarrow>
          (case scan_loop host devices w1 of
             (printed, w2) \<Rightarrow>
               (let count = length printed in
                (Inr ([HeaderLine, SeparatorLine] @ printed
                      @ (if count = 0 then [NoDevicesLine] else [])), w2))))"

text \<open>The arguments of the \<^verbatim>\<open>set\<close> command: the colour, and the optional identifiers.\<close>

record args =
  arg_color :: string
  arg_vid :: "string option"
  arg_pid :: "string option"

text \<open>Lines 107 and 108: a non-empty command-line value, or else the configured one.\<close>

definition arg_or_config :: "string option \<Rightarrow> json_object \<Rightarrow> string \<Rightarrow> jval" where
  "arg_or_config a config k =
     (case a of
        Some s \<Rightarrow> if s \<noteq> [] then JStr s else dict_get config k
      | None \<Rightarrow> dict_get config k)"

text \<open>
  Line 111: \<^verbatim>\<open>not vid\<close> holds for \<^verbatim>\<open>None\<close>, for 0 and for the empty string; any other
  value goes to the constructor as it is.
\<close>

definition identifier_of :: "jval \<Rightarrow> hex_or_int option" where
  "identifier_of x =
     (case x of
        JNull \<Rightarrow> None
      | JInt n \<Rightarrow> if n = 0 then None else Some (IntVal n)
      | JStr s \<Rightarrow> if s = [] then None else Some (HexStr s))"

text \<open>Lines 117 to 119: endpoint, header and footer, from the configuration or the defaults.\<close>

definition template_of :: "json_object \<Rightarrow> jval \<times> jval \<times> jval" where
  "template_of config =
     (dict_get_default config ''endpoint'' (JInt 2),
      dict_get_default config ''packet_header'' (JStr DEFAULT_PACKET_HEADER),
      dict_get_default config ''packet_footer'' (JStr DEFAULT_PACKET_FOOTER))"

text \<open>
  \<^verbatim>\<open>manual_set_color\<close> returns nothing; the model returns which closing messages it
  printed: identifiers missing (line 112); success (line 128), alone or followed by the
  error that \<^verbatim>\<open>save_config\<close> raised and line 133 caught; device found but packet not sent
  (line 132); or the error caught (line 134). A header or footer of the configuration that
  is no string raises at the concatenation of line 60.
\<close>

datatype set_report =
    MissingIds
  | Success
  | SuccessNotSaved py_exception
  | SendFailed
  | Error py_exception

definition manual_set_color ::
  "(string \<Rightarrow> int option) \<Rightarrow> file_system \<Rightarrow> usb_host \<Rightarrow> args \<Rightarrow> world
     \<Rightarrow> set_report \<times> world" where
  "manual_set_color int16 fs host a w =
     (let config = load_config w;
          v = arg_or_config (arg_vid a) config ''vid'';
          p = arg_or_config (arg_pid a) config ''pid''
      in case (identifier_of v, identifier_of p) of
           (Some vi, Some pj) \<Rightarrow>
             (case template_of config of
                (ep, header, footer) \<Rightarrow>
                  (case RGBDevice_init int16 host vi pj ep w of
                     (Inl e, w1) \<Rightarrow> (Error e, w1)
                   | (Inr device, w1) \<Rightarrow>
                       (case (header, footer) of
                          (JStr h, JStr f) \<Rightarrow>
                            (case send_color_packet host device (arg_color a) h f w1 of
                               (Inl e, device', w2) \<Rightarrow> (Error e, w2)
                             | (Inr success, device', w2) \<Rightarrow>
                                 if success then
                                   (case save_config fs v p ep h f w2 of
                                      (None, w3) \<Rightarrow> (Success, w3)
                                    | (Some e, w3) \<Rightarrow> (SuccessNotSaved e, w3))
                                 else (SendFailed, w2))
                        | _ \<Rightarrow> (Error OtherException, w1))))
         | _ \<Rightarrow> (MissingIds, w))"

section \<open>Specification-side vocabulary\<close>

text \<open>
  The specification's "valid hexadecimal": an even number of characters, each of them a
  hexadecimal digit.
\<close>

definition spec_valid_hex :: "string \<Rightarrow> bool" where
  "spec_valid_hex s = (even (length s) \<and> list_all is_hex_digit s)"

text \<open>A change of letter case that leaves everything but \<^verbatim>\<open>a-z\<close> alone.\<close>

definition ascii_upper :: "char \<Rightarrow> char" where
  "ascii_upper c =
     (let n = (of_char c :: nat) in if 97 \<le> n \<and> n \<le> 122 then char_of (n - 32) else c)"

text \<open>The reports with the success message of line 128.\<close>

fun printed_success :: "set_report \<Rightarrow> bool" where
  "printed_success Success = True"
| "printed_success (SuccessNotSaved e) = True"
| "printed_success r = False"

text \<open>The write attempts among the calls of a log.\<close>

fun is_write :: "usb_call \<Rightarrow> bool" where
  "is_write (Write d ep packet_data) = True"
| "is_write c = False"

text \<open>
  The line the listing owes a device when the host answers a descriptor read the same way
  at every moment: a device without product string (index 0) is listed as "Unknown", a
  device whose product string is read is listed with it, and a device whose read raises is
  left out.
\<close>

definition spec_scan_row ::
  "(usb_dev \<Rightarrow> int \<Rightarrow> py_exception + string) \<Rightarrow> usb_dev \<Rightarrow> scan_line option" where
  "spec_scan_row gs d =
     (if iProduct d = 0 then Some (DeviceLine (idVendor d) (idProduct d) ''Unknown'')
      else (case gs d (iProduct d) of
              Inl e \<Rightarrow> None
            | Inr name \<Rightarrow> Some (DeviceLine (idVendor d) (idProduct d) name)))"

section \<open>Example hosts\<close>

text \<open>A controller of the reference family, at vendor 0x0416 and product 0x7399.\<close>

definition example_dev :: usb_dev where
  "example_dev = \<lparr>idVendor = 1046, idProduct = 29593, iProduct = 2, address = 1\<rparr>"

text \<open>A host that always lists the given devices and on which every call succeeds.\<close>

definition steady_host :: "usb_dev list \<Rightarrow> usb_host" where
  "steady_host devs =
     \<lparr>enumerate_devices = (\<lambda>log. Inr devs),
      set_configuration = (\<lambda>log d. None),
      endpoint_write = (\<lambda>log d ep packet_data. None),
      get_string = (\<lambda>log d i. Inr ''LianLi Controller'')\<rparr>"

text \<open>The same host, but its first write raises \<^verbatim>\<open>USBError\<close>.\<close>

definition flaky_host :: "usb_dev list \<Rightarrow> usb_host" where
  "flaky_host devs =
     (steady_host devs)
       \<lparr>endpoint_write :=
          (\<lambda>log d ep packet_data. if filter is_write log = [] then Some USBError else None)\<rparr>"

text \<open>The same host, but every read of a string descriptor raises.\<close>

definition unreadable_host :: "usb_dev list \<Rightarrow> usb_host" where
  "unreadable_host devs =
     (steady_host devs)\<lparr>get_string := (\<lambda>log d i. Inl USBError)\<rparr>"

text \<open>
  A host from which the device is unplugged during the first write: that write raises
  \<^verbatim>\<open>USBError\<close>, and the device is not listed any more afterwards.
\<close>

definition unplugging_host :: usb_host where
  "unplugging_host =
     (flaky_host [example_dev])
       \<lparr>enumerate_devices :=
          (\<lambda>log. if filter is_write log = [] then Inr [example_dev] else Inr [])\<rparr>"

text \<open>
  Three file systems: one on which the configuration file can be written, one on which
  opening it for writing raises, and one on which the write itself raises.
\<close>

definition writable_fs :: file_system where
  "writable_fs = \<lparr>open_for_write = None, json_dump = None\<rparr>"

definition readonly_fs :: file_system where
  "readonly_fs = \<lparr>open_for_write = Some OtherException, json_dump = None\<rparr>"

definition full_fs :: file_system where
  "full_fs = \<lparr>open_for_write = None, json_dump = Some OtherException\<rparr>"

text \<open>A world with no configuration file, in which no USB call has been made.\<close>

definition fresh_world :: world where
  "fresh_world = \<lparr>usb_log = [], config_file = NoFile\<rparr>"

text \<open>The two values of \<^verbatim>\<open>int(s, 16)\<close> that the examples need.\<close>

definition example_int16 :: "string \<Rightarrow> int option" where
  "example_int16 s =
     (if s = ''0416'' then Some 1046 else if s = ''7399'' then Some 29593 else None)"

text \<open>A controller object connected to the example device, and two command lines.\<close>

definition example_controller :: RGBDevice where
  "example_controller = \<lparr>vid = 1046, pid = 29593, endpoint = JInt 2, dev = Some example_dev\<rparr>"

definition example_args :: args where
  "example_args = \<lparr>arg_color = ''FF0000'', arg_vid = Some ''0416'', arg_pid = Some ''7399''\<rparr>"


section \<open>Characters and the decoder\<close>

lemma hex_digit_not_space: "is_hex_digit c \<Longrightarrow> \<not> is_space c"
  by (auto simp: is_hex_digit_def digit_value_def is_space_def Let_def split: if_splits)

lemma lower_char_hex_digit: "is_hex_digit (lower_char c) = is_hex_digit c"
  by (auto simp: is_hex_digit_def digit_value_def lower_char_def Let_def split: if_splits)

lemma lower_char_space: "is_space (lower_char c) = is_space c"
  by (auto simp: is_space_def lower_char_def Let_def split: if_splits)

lemma fromhex_hex_digits:
  "list_all is_hex_digit s \<Longrightarrow> even (length s) \<Longrightarrow>
     \<exists>bs. fromhex s = Some bs \<and> length bs = length s div 2"
proof (induction s rule: induct_list012)
  case 1
  then show ?case by simp
next
  case (2 x)
  then show ?case by simp
next
  case (3 x y zs)
  then obtain bs where bs: "fromhex zs = Some bs" "length bs = length zs div 2"
    by auto
  from 3 have "\<not> is_space x" "digit_value x \<noteq> None" "digit_value y \<noteq> None"
    by (auto simp: hex_digit_not_space is_hex_digit_def)
  then show ?case using bs by auto
qed

lemma fromhex_no_space:
  "\<not> list_ex is_space s \<Longrightarrow> fromhex s \<noteq> None \<Longrightarrow> list_all is_hex_digit s \<and> even (length s)"
proof (induction s rule: induct_list012)
  case 1
  then show ?case by simp
next
  case (2 x)
  then show ?case by (simp split: option.splits)
next
  case (3 x y zs)
  from "3.prems" have ns: "\<not> is_space x" "\<not> list_ex is_space zs" by simp_all
  from "3.prems"(2) ns(1) obtain hi where hi: "digit_value x = Some hi"
    by (cases "digit_value x") simp_all
  from "3.prems"(2) ns(1) hi obtain lo where lo: "digit_value y = Some lo"
    by (cases "digit_value y") simp_all
  from "3.prems"(2) ns(1) hi lo have "fromhex zs \<noteq> None"
    by (cases "fromhex zs") simp_all
  with "3.IH"(1) ns(2) have "list_all is_hex_digit zs \<and> even (length zs)" by blast
  moreover from hi lo have "is_hex_digit x" "is_hex_digit y" by (simp_all add: is_hex_digit_def)
  ultimately show ?case by simp
qed

lemma lower_ascii_upper: "lower_char (ascii_upper c) = lower_char c"
  by (auto simp: lower_char_def ascii_upper_def Let_def)

lemma lower_char_is_hash: "(lower_char x = CHR ''#'') = (x = CHR ''#'')"
proof
  assume h: "lower_char x = CHR ''#''"
  then have "(of_char (lower_char x) :: nat) = 35" by simp
  then have "(of_char x :: nat) = 35"
    by (auto simp: lower_char_def Let_def split: if_splits)
  then have "char_of (of_char x :: nat) = char_of (35 :: nat)" by simp
  then show "x = CHR ''#''" by (simp add: char_of_eq_iff take_bit_eq_mod)
next
  assume "x = CHR ''#''"
  then show "lower_char x = CHR ''#''" by (simp add: lower_char_def)
qed

lemma hex_digit_not_hash: "is_hex_digit c \<Longrightarrow> c \<noteq> CHR ''#''"
  by (auto simp: is_hex_digit_def digit_value_def)

lemma replace_hash_hex: "list_all is_hex_digit s \<Longrightarrow> replace_hash s = s"
  by (induction s) (simp_all add: replace_hash_def hex_digit_not_hash)

lemma lower_hex: "list_all is_hex_digit (lower s) = list_all is_hex_digit s"
  by (induction s) (simp_all add: lower_def lower_char_hex_digit)

lemma length_lower: "length (lower s) = length s"
  by (simp add: lower_def)

lemma build_payload_fails:
  "(build_payload header c footer = Inl e) =
     (e = InvalidHexData \<and> fromhex (header @ lower (replace_hash c) @ footer) = None)"
  by (cases "fromhex (header @ lower (replace_hash c) @ footer)")
     (auto simp: build_payload_def Let_def)

lemma same_case_normalized:
  "list_all2 (\<lambda>x y. lower_char x = lower_char y) s t \<Longrightarrow>
     lower (replace_hash s) = lower (replace_hash t)"
proof (induction rule: list_all2_induct)
  case Nil
  then show ?case by simp
next
  case (Cons x xs y ys)
  from Cons.hyps(1) have "(x = CHR ''#'') = (y = CHR ''#'')"
    using lower_char_is_hash [of x] lower_char_is_hash [of y] by simp
  with Cons show ?case by (simp add: replace_hash_def lower_def)
qed

section \<open>Payload construction: the claims\<close>

text \<open>
  C1 (as amended). Payload construction fails with the "Invalid Hex Data" error of line 65
  and with no other. When it fails, the joined header + normalised colour + footer is not
  valid hexadecimal (odd length or a character that is no hexadecimal digit). When the
  joined string holds no ASCII whitespace, it fails exactly when the joined string is not
  valid hexadecimal; the three parts are decoded as one string, so a malformed colour
  alone makes it fail. Whitespace between two bytes is skipped by the decoder, not
  rejected.
\<close>

theorem build_payload_fails_iff:
  "(build_payload header color footer = Inl InvalidHexData \<longrightarrow>
      \<not> spec_valid_hex (header @ lower (replace_hash color) @ footer)) \<and>
   (\<not> list_ex is_space (header @ lower (replace_hash color) @ footer) \<longrightarrow>
      (build_payload header color footer = Inl InvalidHexData) =
      (\<not> spec_valid_hex (header @ lower (replace_hash color) @ footer))) \<and>
   (\<forall>e. build_payload header color footer = Inl e \<longrightarrow> e = InvalidHexData)"
proof -
  define s where "s = header @ lower (replace_hash color) @ footer"
  have fails: "(build_payload header color footer = Inl e) = (e = InvalidHexData \<and> fromhex s = None)"
    for e unfolding s_def by (rule build_payload_fails)
  have a: "\<not> spec_valid_hex s" if "fromhex s = None"
  proof
    assume "spec_valid_hex s"
    then have "list_all is_hex_digit s" "even (length s)" by (simp_all add: spec_valid_hex_def)
    then obtain bs where "fromhex s = Some bs" using fromhex_hex_digits by blast
    with that show False by simp
  qed
  have b: "fromhex s = None" if "\<not> list_ex is_space s" "\<not> spec_valid_hex s"
  proof (rule ccontr)
    assume "fromhex s \<noteq> None"
    with that(1) have "list_all is_hex_digit s \<and> even (length s)" by (rule fromhex_no_space)
    with that(2) show False by (simp add: spec_valid_hex_def)
  qed
  have c1: "build_payload header color footer = Inl InvalidHexData \<longrightarrow> \<not> spec_valid_hex s"
    using a by (simp add: fails)
  have c2: "\<not> list_ex is_space s \<longrightarrow>
      (build_payload header color footer = Inl InvalidHexData) = (\<not> spec_valid_hex s)"
  proof
    assume ns: "\<not> list_ex is_space s"
    show "(build_payload header color footer = Inl InvalidHexData) = (\<not> spec_valid_hex s)"
    proof
      assume "build_payload header color footer = Inl InvalidHexData"
      then have "fromhex s = None" by (simp add: fails)
      then show "\<not> spec_valid_hex s" by (rule a)
    next
      assume "\<not> spec_valid_hex s"
      with ns have "fromhex s = None" by (rule b)
      then show "build_payload header color footer = Inl InvalidHexData" by (simp add: fails)
    qed
  qed
  have c3: "\<forall>e. build_payload header color footer = Inl e \<longrightarrow> e = InvalidHexData"
    by (simp add: fails)
  from c1 c2 c3
  have "(build_payload header color footer = Inl InvalidHexData \<longrightarrow> \<not> spec_valid_hex s) \<and>
        (\<not> list_ex is_space s \<longrightarrow>
           (build_payload header color footer = Inl InvalidHexData) = (\<not> spec_valid_hex s)) \<and>
        (\<forall>e. build_payload header color footer = Inl e \<longrightarrow> e = InvalidHexData)"
    by (intro conjI)
  then show ?thesis unfolding s_def .
qed

theorem build_payload_fails_iff_witness:
  "\<not> list_ex is_space (''0185'' @ lower (replace_hash ''GG0000'') @ ''00'') \<and>
   \<not> spec_valid_hex (''0185'' @ lower (replace_hash ''GG0000'') @ ''00'') \<and>
   build_payload ''0185'' ''GG0000'' ''00'' = Inl InvalidHexData"
proof -
  have ns: "\<not> list_ex is_space (''0185'' @ lower (replace_hash ''GG0000'') @ ''00'')"
    by code_simp
  have inv: "\<not> spec_valid_hex (''0185'' @ lower (replace_hash ''GG0000'') @ ''00'')"
    by code_simp
  note iff = build_payload_fails_iff [of "''0185''" "''GG0000''" "''00''",
      THEN conjunct2, THEN conjunct1, rule_format, OF ns]
  from iff inv have "build_payload ''0185'' ''GG0000'' ''00'' = Inl InvalidHexData"
    by (rule iffD2)
  with ns inv show ?thesis by (intro conjI)
qed

text \<open>
  C1 as stated fails: with the header \<^verbatim>\<open>01 85\<close> the joined string has odd length and
  holds a space, which is no hexadecimal digit, and yet the payload is built.
\<close>

theorem build_payload_whitespace_counterexample:
  "\<not> spec_valid_hex (''01 85'' @ lower (replace_hash ''ff0000'') @ []) \<and>
   build_payload ''01 85'' ''ff0000'' [] = Inr [1, 133, 255, 0, 0]"
  by code_simp

text \<open>
  C5. For a header, a colour \<open>h\<close> and a footer that consist of hexadecimal digits, with
  \<open>h\<close> of even length and a header and footer of even joint length, decoding the
  concatenation gives a byte sequence of length
  \<open>(len(header) + len(h) + len(footer)) / 2\<close>.
\<close>

theorem build_payload_length:
  assumes "list_all is_hex_digit header" "list_all is_hex_digit h" "list_all is_hex_digit footer"
    and "even (length h)" "even (length header + length footer)"
  shows "\<exists>bs. build_payload header h footer = Inr bs \<and>
              length bs = (length header + length h + length footer) div 2"
proof -
  define s where "s = header @ lower (replace_hash h) @ footer"
  have norm: "replace_hash h = h" using assms(2) by (rule replace_hash_hex)
  have hex: "list_all is_hex_digit s"
    using assms(1-3) by (simp add: s_def norm lower_hex)
  have len: "length s = length header + length h + length footer"
    by (simp add: s_def norm length_lower)
  have "even (length s)" using assms(4,5) len by simp
  with hex obtain bs where bs: "fromhex s = Some bs" "length bs = length s div 2"
    using fromhex_hex_digits by blast
  have "build_payload header h footer = Inr bs"
    using bs(1) by (simp add: build_payload_def Let_def s_def)
  with bs(2) len show ?thesis by simp
qed

theorem build_payload_length_witness:
  "list_all is_hex_digit DEFAULT_PACKET_HEADER \<and> list_all is_hex_digit ''ff0000'' \<and>
   list_all is_hex_digit DEFAULT_PACKET_FOOTER \<and> even (length ''ff0000'') \<and>
   even (length DEFAULT_PACKET_HEADER + length DEFAULT_PACKET_FOOTER) \<and>
   (\<exists>bs. build_payload DEFAULT_PACKET_HEADER ''ff0000'' DEFAULT_PACKET_FOOTER = Inr bs \<and>
         length bs = 64)"
proof -
  have h1: "list_all is_hex_digit DEFAULT_PACKET_HEADER" by code_simp
  have h2: "list_all is_hex_digit ''ff0000''" by code_simp
  have h3: "list_all is_hex_digit DEFAULT_PACKET_FOOTER" by code_simp
  have h4: "even (length ''ff0000'')" by simp
  have h5: "even (length DEFAULT_PACKET_HEADER + length DEFAULT_PACKET_FOOTER)" by code_simp
  have n: "(length DEFAULT_PACKET_HEADER + length ''ff0000'' + length DEFAULT_PACKET_FOOTER) div 2 = 64"
    by code_simp
  from build_payload_length [OF h1 h2 h3 h4 h5] n
  have "\<exists>bs. build_payload DEFAULT_PACKET_HEADER ''ff0000'' DEFAULT_PACKET_FOOTER = Inr bs \<and>
         length bs = 64"
    by simp
  with h1 h2 h3 h4 h5 show ?thesis by (intro conjI)
qed

text \<open>
  C6. A colour with a leading \<^verbatim>\<open>#\<close> gives the payload of the same colour without it, and
  letter case does not matter: the colour in upper case, and any colour that differs from
  it in letter case only, give the same payload.
\<close>

theorem build_payload_hash_and_case:
  "build_payload header (CHR ''#'' # c) footer = build_payload header c footer \<and>
   build_payload header (map ascii_upper c) footer = build_payload header c footer \<and>
   (list_all2 (\<lambda>x y. lower_char x = lower_char y) c c' \<longrightarrow>
      build_payload header c footer = build_payload header c' footer)"
proof (intro conjI impI)
  have "replace_hash (CHR ''#'' # c) = replace_hash c" by (simp add: replace_hash_def)
  then show "build_payload header (CHR ''#'' # c) footer = build_payload header c footer"
    by (simp add: build_payload_def)
next
  have "list_all2 (\<lambda>x y. lower_char x = lower_char y) (map ascii_upper c) c"
    by (simp add: list_all2_map1 lower_ascii_upper list_all2_refl)
  then have "lower (replace_hash (map ascii_upper c)) = lower (replace_hash c)"
    by (rule same_case_normalized)
  then show "build_payload header (map ascii_upper c) footer = build_payload header c footer"
    by (simp add: build_payload_def)
next
  assume "list_all2 (\<lambda>x y. lower_char x = lower_char y) c c'"
  then have "lower (replace_hash c) = lower (replace_hash c')"
    by (rule same_case_normalized)
  then show "build_payload header c footer = build_payload header c' footer"
    by (simp add: build_payload_def)
qed

theorem build_payload_hash_and_case_witness:
  "list_all2 (\<lambda>x y. lower_char x = lower_char y) ''Ff00aA'' ''fF00Aa'' \<and>
   build_payload ''0185'' ''Ff00aA'' ''00'' = build_payload ''0185'' ''fF00Aa'' ''00''"
proof -
  have h: "list_all2 (\<lambda>x y. lower_char x = lower_char y) ''Ff00aA'' ''fF00Aa''"
    by code_simp
  from build_payload_hash_and_case [of "''0185''" "''Ff00aA''" "''00''" "''fF00Aa''",
      THEN conjunct2, THEN conjunct2, rule_format, OF h] h
  show ?thesis by (intro conjI)
qed

text \<open>
  C10. The payload of a colour is the payload of the colour with every \<^verbatim>\<open>#\<close> removed,
  wherever it stands: \<^verbatim>\<open>ff#00#00\<close> gives the payload of \<^verbatim>\<open>ff0000\<close>.
\<close>

theorem build_payload_ignores_every_hash:
  "build_payload header c footer =
     build_payload header (filter (\<lambda>x. x \<noteq> CHR ''#'') c) footer \<and>
   build_payload header ''ff#00#00'' footer = build_payload header ''ff0000'' footer"
  by (simp add: build_payload_def replace_hash_def)

section \<open>Locating the device (\<^verbatim>\<open>connect\<close>)\<close>

lemma find_filter_hd:
  "List.find P xs = (case filter P xs of [] \<Rightarrow> None | x # rest \<Rightarrow> Some x)"
  by (induction xs) simp_all

lemma connect_log_not_found:
  assumes "enumerate_devices host (usb_log w) = Inr devs"
    and "filter (\<lambda>d. idVendor d = vid self \<and> idProduct d = pid self) devs = []"
  shows "connect host self w =
           (Inl (DeviceNotFound (vid self) (pid self)), self\<lparr>dev := None\<rparr>,
            w\<lparr>usb_log := usb_log w @ [Find (vid self) (pid self)]\<rparr>)"
  using assms by (simp add: connect_def usb_core_find_def find_filter_hd Let_def)

lemma connect_log_found:
  assumes "enumerate_devices host (usb_log w) = Inr devs"
    and "filter (\<lambda>d. idVendor d = vid self \<and> idProduct d = pid self) devs = d # rest"
  shows "connect host self w =
           ((case set_configuration host (usb_log w @ [Find (vid self) (pid self)]) d of
               None \<Rightarrow> Inr ()
             | Some e \<Rightarrow> Inl e),
            self\<lparr>dev := Some d\<rparr>,
            w\<lparr>usb_log := usb_log w @ [Find (vid self) (pid self), SetConfiguration d]\<rparr>)"
  using assms
  by (simp add: connect_def usb_core_find_def dev_set_configuration_def find_filter_hd Let_def
      split: option.splits)

lemma connect_frame:
  assumes "connect host self w = (r, self', w')"
  shows "config_file w' = config_file w \<and> filter is_write (usb_log w') = filter is_write (usb_log w)
         \<and> vid self' = vid self \<and> pid self' = pid self \<and> endpoint self' = endpoint self"
  using assms
  by (auto simp: connect_def usb_core_find_def dev_set_configuration_def Let_def
      split: sum.splits option.splits)

text \<open>
  C4. When the host lists the devices and none has the vendor/product pair, \<^verbatim>\<open>connect\<close>
  fails with the not-found error, after the one search. When some have it, the handle is
  the first of them in the host's order, the configuration is claimed on that device
  exactly once before \<^verbatim>\<open>connect\<close> returns, and a failure to claim is the failure of
  \<^verbatim>\<open>connect\<close>: the log ends with that one claim, whatever its outcome.
\<close>

theorem connect_first_match:
  assumes "enumerate_devices host (usb_log w) = Inr devs"
  shows "(filter (\<lambda>d. idVendor d = vid self \<and> idProduct d = pid self) devs = [] \<longrightarrow>
            connect host self w =
              (Inl (DeviceNotFound (vid self) (pid self)), self\<lparr>dev := None\<rparr>,
               w\<lparr>usb_log := usb_log w @ [Find (vid self) (pid self)]\<rparr>)) \<and>
         (\<forall>d rest.
            filter (\<lambda>d. idVendor d = vid self \<and> idProduct d = pid self) devs = d # rest \<longrightarrow>
            connect host self w =
              ((case set_configuration host (usb_log w @ [Find (vid self) (pid self)]) d of
                  None \<Rightarrow> Inr ()
                | Some e \<Rightarrow> Inl e),
               self\<lparr>dev := Some d\<rparr>,
               w\<lparr>usb_log := usb_log w @ [Find (vid self) (pid self), SetConfiguration d]\<rparr>))"
  using connect_log_not_found [OF assms] connect_log_found [OF assms] by (intro conjI allI impI)

theorem connect_first_match_witness:
  "connect (steady_host [example_dev\<lparr>idProduct := 1\<rparr>, example_dev, example_dev\<lparr>address := 2\<rparr>])
     (example_controller\<lparr>dev := None\<rparr>) fresh_world =
     (Inr (), example_controller,
      \<lparr>usb_log = [Find 1046 29593, SetConfiguration example_dev], config_file = NoFile\<rparr>) \<and>
   connect (steady_host [example_dev\<lparr>idProduct := 1\<rparr>])
     (example_controller\<lparr>dev := None\<rparr>) fresh_world =
     (Inl (DeviceNotFound 1046 29593), example_controller\<lparr>dev := None\<rparr>,
      \<lparr>usb_log = [Find 1046 29593], config_file = NoFile\<rparr>) \<and>
   connect ((steady_host [example_dev])\<lparr>set_configuration := (\<lambda>log d. Some USBError)\<rparr>)
     (example_controller\<lparr>dev := None\<rparr>) fresh_world =
     (Inl USBError, example_controller,
      \<lparr>usb_log = [Find 1046 29593, SetConfiguration example_dev], config_file = NoFile\<rparr>)"
proof -
  let ?devs = "[example_dev\<lparr>idProduct := 1\<rparr>, example_dev, example_dev\<lparr>address := 2\<rparr>]"
  let ?self = "example_controller\<lparr>dev := None\<rparr>"
  have e1: "enumerate_devices (steady_host ?devs) (usb_log fresh_world) = Inr ?devs"
    by (simp add: steady_host_def)
  have f1: "filter (\<lambda>d. idVendor d = vid ?self \<and> idProduct d = pid ?self) ?devs
              = example_dev # [example_dev\<lparr>address := 2\<rparr>]"
    by (simp add: example_dev_def example_controller_def)
  have e2: "enumerate_devices (steady_host [example_dev\<lparr>idProduct := 1\<rparr>]) (usb_log fresh_world)
              = Inr [example_dev\<lparr>idProduct := 1\<rparr>]"
    by (simp add: steady_host_def)
  have f2: "filter (\<lambda>d. idVendor d = vid ?self \<and> idProduct d = pid ?self)
              [example_dev\<lparr>idProduct := 1\<rparr>] = []"
    by (simp add: example_dev_def example_controller_def)
  from connect_first_match [OF e1, of ?self, THEN conjunct2, rule_format, OF f1]
  have a: "connect (steady_host ?devs) ?self fresh_world =
     (Inr (), example_controller,
      \<lparr>usb_log = [Find 1046 29593, SetConfiguration example_dev], config_file = NoFile\<rparr>)"
    by (simp add: steady_host_def example_controller_def fresh_world_def)
  from connect_first_match [OF e2, of ?self, THEN conjunct1, rule_format, OF f2]
  have b: "connect (steady_host [example_dev\<lparr>idProduct := 1\<rparr>]) ?self fresh_world =
     (Inl (DeviceNotFound 1046 29593), ?self,
      \<lparr>usb_log = [Find 1046 29593], config_file = NoFile\<rparr>)"
    by (simp add: example_controller_def fresh_world_def)
  let ?refusing = "(steady_host [example_dev])\<lparr>set_configuration := (\<lambda>log d. Some USBError)\<rparr>"
  have e3: "enumerate_devices ?refusing (usb_log fresh_world) = Inr [example_dev]"
    by (simp add: steady_host_def)
  have f3: "filter (\<lambda>d. idVendor d = vid ?self \<and> idProduct d = pid ?self) [example_dev]
              = example_dev # []"
    by (simp add: example_dev_def example_controller_def)
  from connect_first_match [OF e3, of ?self, THEN conjunct2, rule_format, OF f3]
  have c: "connect ?refusing ?self fresh_world =
     (Inl USBError, example_controller,
      \<lparr>usb_log = [Find 1046 29593, SetConfiguration example_dev], config_file = NoFile\<rparr>)"
    by (simp add: steady_host_def example_controller_def fresh_world_def)
  from a b c show ?thesis by (intro conjI)
qed

section \<open>Sending (\<^verbatim>\<open>send_color_packet\<close>)\<close>

lemma send_color_packet_frame:
  assumes "send_color_packet host self color header footer w = (r, self', w')"
  shows "config_file w' = config_file w \<and>
         length (filter is_write (usb_log w')) \<le> length (filter is_write (usb_log w)) + 2"
  using assms
  by (auto simp: send_color_packet_def dev_write_def connect_def usb_core_find_def
      dev_set_configuration_def Let_def split: sum.splits option.splits if_splits)


text \<open>
  C2. When the first write raises a transport error, exactly one recovery follows: one
  search with the identifiers of the object, then (if a device is found) one claim on it,
  then (if the claim succeeds) one more write, of the same payload to the same endpoint, on
  the new handle. The result is success when that second write succeeds and failure in
  every other case; nothing is called after it. No send, whatever happens, makes more than
  two write attempts.
\<close>

theorem send_color_packet_one_retry:
  assumes "build_payload header color footer = Inr packet_data"
    and "dev self = Some d"
    and "endpoint_write host (usb_log w) d (endpoint self) packet_data = Some USBError"
  shows "send_color_packet host self color header footer w =
    (let log1 = usb_log w @ [Write d (endpoint self) packet_data];
         log2 = log1 @ [Find (vid self) (pid self)]
     in case enumerate_devices host log1 of
          Inl e \<Rightarrow> (Inr False, self, w\<lparr>usb_log := log2\<rparr>)
        | Inr devs \<Rightarrow>
            (case List.find (\<lambda>x. idVendor x = vid self \<and> idProduct x = pid self) devs of
               None \<Rightarrow> (Inr False, self\<lparr>dev := None\<rparr>, w\<lparr>usb_log := log2\<rparr>)
             | Some d' \<Rightarrow>
                 (case set_configuration host log2 d' of
                    Some e \<Rightarrow>
                      (Inr False, self\<lparr>dev := Some d'\<rparr>,
                       w\<lparr>usb_log := log2 @ [SetConfiguration d']\<rparr>)
                  | None \<Rightarrow>
                      (Inr (endpoint_write host (log2 @ [SetConfiguration d']) d' (endpoint self)
                              packet_data = None),
                       self\<lparr>dev := Some d'\<rparr>,
                       w\<lparr>usb_log := log2 @ [SetConfiguration d',
                                              Write d' (endpoint self) packet_data]\<rparr>)))) \<and>
    length (filter is_write
              (usb_log (snd (snd (send_color_packet host self color header footer w)))))
      \<le> length (filter is_write (usb_log w)) + 2"
  apply (rule conjI)
  subgoal
    using assms
    by (simp add: send_color_packet_def dev_write_def connect_def usb_core_find_def
        dev_set_configuration_def Let_def split: sum.splits option.splits)
  subgoal
    using send_color_packet_frame [of host self color header footer w]
    by (metis prod.collapse)
  done

theorem send_color_packet_one_retry_witness:
  "build_payload ''0185'' ''ff0000'' ''00'' = Inr [1, 133, 255, 0, 0, 0] \<and>
   endpoint_write (flaky_host [example_dev]) (usb_log fresh_world) example_dev (JInt 2)
     [1, 133, 255, 0, 0, 0] = Some USBError \<and>
   send_color_packet (flaky_host [example_dev]) example_controller ''ff0000'' ''0185'' ''00''
     fresh_world =
     (Inr True, example_controller,
      \<lparr>usb_log = [Write example_dev (JInt 2) [1, 133, 255, 0, 0, 0], Find 1046 29593,
                  SetConfiguration example_dev,
                  Write example_dev (JInt 2) [1, 133, 255, 0, 0, 0]],
       config_file = NoFile\<rparr>) \<and>
   send_color_packet unplugging_host example_controller ''ff0000'' ''0185'' ''00''
     fresh_world =
     (Inr False, example_controller\<lparr>dev := None\<rparr>,
      \<lparr>usb_log = [Write example_dev (JInt 2) [1, 133, 255, 0, 0, 0], Find 1046 29593],
       config_file = NoFile\<rparr>)"
proof -
  have p: "build_payload ''0185'' ''ff0000'' ''00'' = Inr [1, 133, 255, 0, 0, 0]"
    by code_simp
  have d: "dev example_controller = Some example_dev" by (simp add: example_controller_def)
  have e: "endpoint_write (flaky_host [example_dev]) (usb_log fresh_world) example_dev
             (endpoint example_controller) [1, 133, 255, 0, 0, 0] = Some USBError"
    by (simp add: flaky_host_def steady_host_def fresh_world_def)
  have u: "endpoint_write unplugging_host (usb_log fresh_world) example_dev
             (endpoint example_controller) [1, 133, 255, 0, 0, 0] = Some USBError"
    by (simp add: unplugging_host_def flaky_host_def steady_host_def fresh_world_def)
  from send_color_packet_one_retry [OF p d e, THEN conjunct1]
  have a: "send_color_packet (flaky_host [example_dev]) example_controller ''ff0000'' ''0185''
      ''00'' fresh_world =
     (Inr True, example_controller,
      \<lparr>usb_log = [Write example_dev (JInt 2) [1, 133, 255, 0, 0, 0], Find 1046 29593,
                  SetConfiguration example_dev,
                  Write example_dev (JInt 2) [1, 133, 255, 0, 0, 0]],
       config_file = NoFile\<rparr>)"
    by (simp add: flaky_host_def steady_host_def fresh_world_def example_controller_def
        example_dev_def Let_def)
  from send_color_packet_one_retry [OF p d u, THEN conjunct1]
  have b: "send_color_packet unplugging_host example_controller ''ff0000'' ''0185'' ''00''
     fresh_world =
     (Inr False, example_controller\<lparr>dev := None\<rparr>,
      \<lparr>usb_log = [Write example_dev (JInt 2) [1, 133, 255, 0, 0, 0], Find 1046 29593],
       config_file = NoFile\<rparr>)"
    by (simp add: unplugging_host_def flaky_host_def steady_host_def fresh_world_def example_controller_def
        example_dev_def Let_def)
  from e
  have e': "endpoint_write (flaky_host [example_dev]) (usb_log fresh_world) example_dev (JInt 2)
     [1, 133, 255, 0, 0, 0] = Some USBError"
    by (simp add: example_controller_def)
  from p e' a b show ?thesis by (intro conjI)
qed

section \<open>The \<^verbatim>\<open>set\<close> command (\<^verbatim>\<open>manual_set_color\<close>)\<close>

lemma RGBDevice_init_frame:
  assumes "RGBDevice_init int16 host v p ep w = (r, w')"
  shows "config_file w' = config_file w \<and>
         filter is_write (usb_log w') = filter is_write (usb_log w)"
proof (cases "parse_identifier int16 v")
  case None
  with assms show ?thesis by (simp add: RGBDevice_init_def)
next
  case (Some vi)
  note vi = this
  show ?thesis
  proof (cases "parse_identifier int16 p")
    case None
    with assms vi show ?thesis by (simp add: RGBDevice_init_def)
  next
    case (Some pj)
    obtain r1 self1 w1 where c:
      "connect host \<lparr>vid = vi, pid = pj, endpoint = ep, dev = None\<rparr> w = (r1, self1, w1)"
      by (metis prod_cases3)
    with assms vi Some have "w' = w1" by (cases r1) (simp_all add: RGBDevice_init_def)
    with connect_frame [OF c] show ?thesis by simp
  qed
qed

lemma msc_missing:
  assumes "identifier_of (arg_or_config (arg_vid a) (load_config w) ''vid'') = None \<or>
           identifier_of (arg_or_config (arg_pid a) (load_config w) ''pid'') = None"
  shows "manual_set_color int16 fs host a w = (MissingIds, w)"
  using assms by (auto simp: manual_set_color_def Let_def split: option.splits)

lemma msc_init_fails:
  assumes "identifier_of (arg_or_config (arg_vid a) (load_config w) ''vid'') = Some vi"
    and "identifier_of (arg_or_config (arg_pid a) (load_config w) ''pid'') = Some pj"
    and "template_of (load_config w) = (ep, header, footer)"
    and "RGBDevice_init int16 host vi pj ep w = (Inl e, w1)"
  shows "manual_set_color int16 fs host a w = (Error e, w1)"
  using assms by (simp add: manual_set_color_def Let_def)

lemma msc_not_strings:
  assumes "identifier_of (arg_or_config (arg_vid a) (load_config w) ''vid'') = Some vi"
    and "identifier_of (arg_or_config (arg_pid a) (load_config w) ''pid'') = Some pj"
    and "template_of (load_config w) = (ep, header, footer)"
    and "RGBDevice_init int16 host vi pj ep w = (Inr device, w1)"
    and "\<not> (\<exists>h f. header = JStr h \<and> footer = JStr f)"
  shows "manual_set_color int16 fs host a w = (Error OtherException, w1)"
  using assms by (cases header; cases footer) (simp_all add: manual_set_color_def Let_def)

lemma msc_send:
  assumes "identifier_of (arg_or_config (arg_vid a) (load_config w) ''vid'') = Some vi"
    and "identifier_of (arg_or_config (arg_pid a) (load_config w) ''pid'') = Some pj"
    and "template_of (load_config w) = (ep, JStr h, JStr f)"
    and "RGBDevice_init int16 host vi pj ep w = (Inr device, w1)"
    and "send_color_packet host device (arg_color a) h f w1 = (rs, device', w2)"
  shows "manual_set_color int16 fs host a w =
           (case rs of
              Inl e \<Rightarrow> (Error e, w2)
            | Inr success \<Rightarrow>
                if success
                then (case save_config fs (arg_or_config (arg_vid a) (load_config w) ''vid'')
                             (arg_or_config (arg_pid a) (load_config w) ''pid'') ep h f w2 of
                        (None, w3) \<Rightarrow> (Success, w3)
                      | (Some e, w3) \<Rightarrow> (SuccessNotSaved e, w3))
                else (SendFailed, w2))"
  using assms by (cases rs) (simp_all add: manual_set_color_def Let_def)

lemma save_config_cases:
  "save_config fs v p ep h f w =
     (case open_for_write fs of
        Some e \<Rightarrow> (Some e, w)
      | None \<Rightarrow>
          (case json_dump fs of
             Some e \<Rightarrow> (Some e, w\<lparr>config_file := Corrupted\<rparr>)
           | None \<Rightarrow>
               (None,
                w\<lparr>config_file := Stored
                   [(''vid'', v), (''pid'', p), (''endpoint'', ep),
                    (''packet_header'', JStr h), (''packet_footer'', JStr f)]\<rparr>)))"
  by (simp add: save_config_def)





text \<open>
  C7 (as amended). The success message is printed exactly when the device was constructed
  and \<^verbatim>\<open>send_color_packet\<close> returned \<^verbatim>\<open>True\<close>, and \<^verbatim>\<open>save_config\<close> is called only then.
  When the file can be opened and written, the configuration file then holds the
  identifiers, endpoint, header and footer that were used. When opening it raises, the
  error is caught and the file is what it was; when the write raises, the error is caught
  and the file is left unparseable. In every case without the success message (identifiers
  missing, an exception, a send that returned \<^verbatim>\<open>False\<close>) the configuration file is what
  it was before.
\<close>

theorem manual_set_color_persists:
  assumes r: "manual_set_color int16 fs host a w = (report, w')"
    and v: "arg_or_config (arg_vid a) (load_config w) ''vid'' = v"
    and p: "arg_or_config (arg_pid a) (load_config w) ''pid'' = p"
    and t: "template_of (load_config w) = (ep, header, footer)"
  shows "(report = Success \<longrightarrow>
            config_file w' =
              Stored [(''vid'', v), (''pid'', p), (''endpoint'', ep),
                      (''packet_header'', header), (''packet_footer'', footer)]) \<and>
         (\<not> printed_success report \<longrightarrow> config_file w' = config_file w) \<and>
         printed_success report =
           (\<exists>vi pj device w1 h f device' w2.
               identifier_of v = Some vi \<and> identifier_of p = Some pj \<and>
               RGBDevice_init int16 host vi pj ep w = (Inr device, w1) \<and>
               header = JStr h \<and> footer = JStr f \<and>
               send_color_packet host device (arg_color a) h f w1 = (Inr True, device', w2)) \<and>
         (printed_success report \<longrightarrow>
            (case open_for_write fs of
               Some e \<Rightarrow> report = SuccessNotSaved e \<and> config_file w' = config_file w
             | None \<Rightarrow>
                 (case json_dump fs of
                    Some e \<Rightarrow> report = SuccessNotSaved e \<and> config_file w' = Corrupted
                  | None \<Rightarrow> report = Success)))"
proof (cases "identifier_of v = None \<or> identifier_of p = None")
  case True
  with v p have "manual_set_color int16 fs host a w = (MissingIds, w)"
    by (intro msc_missing) simp
  with r True show ?thesis by auto
next
  case False
  then obtain vi pj where ids: "identifier_of v = Some vi" "identifier_of p = Some pj" by auto
  obtain ri w1 where init: "RGBDevice_init int16 host vi pj ep w = (ri, w1)" by fastforce
  note fr1 = RGBDevice_init_frame [OF init]
  show ?thesis
  proof (cases ri)
    case (Inl e)
    with ids init v p t have "manual_set_color int16 fs host a w = (Error e, w1)"
      by (intro msc_init_fails) simp_all
    with r fr1 ids init Inl show ?thesis by auto
  next
    case (Inr device)
    note init' = init [unfolded Inr]
    show ?thesis
    proof (cases "\<exists>h f. header = JStr h \<and> footer = JStr f")
      case False
      with ids init' v p t have "manual_set_color int16 fs host a w = (Error OtherException, w1)"
        by (intro msc_not_strings) simp_all
      with r fr1 False show ?thesis by auto
    next
      case True
      then obtain h f where hf: "header = JStr h" "footer = JStr f" by auto
      obtain rs device' w2 where
        send: "send_color_packet host device (arg_color a) h f w1 = (rs, device', w2)"
        by (metis prod_cases3)
      note fr2 = send_color_packet_frame [OF send]
      from ids(1) ids(2) t [unfolded hf] init' send
      have m: "manual_set_color int16 fs host a w =
           (case rs of
              Inl e \<Rightarrow> (Error e, w2)
            | Inr success \<Rightarrow>
                if success
                then (case save_config fs v p ep h f w2 of
                        (None, w3) \<Rightarrow> (Success, w3)
                      | (Some e, w3) \<Rightarrow> (SuccessNotSaved e, w3))
                else (SendFailed, w2))"
        unfolding v [symmetric] p [symmetric] by (rule msc_send)
      show ?thesis
      proof (cases rs)
        case (Inl e)
        with m r fr1 fr2 ids init' hf send show ?thesis by auto
      next
        case (Inr success)
        show ?thesis
        proof (cases success)
          case False
          with m r Inr have "report = SendFailed" "w' = w2" by simp_all
          with fr1 fr2 ids init' hf send Inr False show ?thesis by auto
        next
          case True
          from send Inr True
          have st: "send_color_packet host device (arg_color a) h f w1 = (Inr True, device', w2)"
            by simp
          from ids init' hf st
          have ex: "\<exists>vi pj device w1 h f device' w2.
               identifier_of v = Some vi \<and> identifier_of p = Some pj \<and>
               RGBDevice_init int16 host vi pj ep w = (Inr device, w1) \<and>
               header = JStr h \<and> footer = JStr f \<and>
               send_color_packet host device (arg_color a) h f w1 = (Inr True, device', w2)"
            by blast
          from m Inr True
          have m': "manual_set_color int16 fs host a w =
              (case save_config fs v p ep h f w2 of
                 (None, w3) \<Rightarrow> (Success, w3)
               | (Some e, w3) \<Rightarrow> (SuccessNotSaved e, w3))"
            by simp
          from fr1 fr2 have same: "config_file w2 = config_file w" by simp
          show ?thesis
          proof (cases "open_for_write fs")
            case (Some e)
            with m' r have "report = SuccessNotSaved e" "w' = w2"
              by (simp_all add: save_config_cases)
            with same ex Some show ?thesis by simp
          next
            case None
            note opened = this
            show ?thesis
            proof (cases "json_dump fs")
              case (Some e)
              with m' r opened have "report = SuccessNotSaved e"
                "w' = w2\<lparr>config_file := Corrupted\<rparr>"
                by (simp_all add: save_config_cases)
              with ex Some opened show ?thesis by simp
            next
              case None
              with m' r opened have "report = Success"
                "w' = w2\<lparr>config_file := Stored
                   [(''vid'', v), (''pid'', p), (''endpoint'', ep),
                    (''packet_header'', JStr h), (''packet_footer'', JStr f)]\<rparr>"
                by (simp_all add: save_config_cases)
              with ex None opened hf show ?thesis by simp
            qed
          qed
        qed
      qed
    qed
  qed
qed

theorem manual_set_color_persists_witness:
  "fst (manual_set_color example_int16 writable_fs (steady_host [example_dev]) example_args
          fresh_world) = Success \<and>
   config_file
     (snd (manual_set_color example_int16 writable_fs (steady_host [example_dev]) example_args
             fresh_world))
     = Stored [(''vid'', JStr ''0416''), (''pid'', JStr ''7399''), (''endpoint'', JInt 2),
               (''packet_header'', JStr DEFAULT_PACKET_HEADER),
               (''packet_footer'', JStr DEFAULT_PACKET_FOOTER)] \<and>
   fst (manual_set_color example_int16 writable_fs unplugging_host example_args fresh_world)
     = SendFailed \<and>
   config_file
     (snd (manual_set_color example_int16 writable_fs unplugging_host example_args fresh_world))
     = config_file fresh_world \<and>
   fst (manual_set_color example_int16 full_fs (steady_host [example_dev]) example_args
          fresh_world) = SuccessNotSaved OtherException \<and>
   config_file
     (snd (manual_set_color example_int16 full_fs (steady_host [example_dev]) example_args
             fresh_world)) = Corrupted"
proof -
  have v: "arg_or_config (arg_vid example_args) (load_config fresh_world) ''vid'' = JStr ''0416''"
    by (simp add: arg_or_config_def example_args_def)
  have p: "arg_or_config (arg_pid example_args) (load_config fresh_world) ''pid'' = JStr ''7399''"
    by (simp add: arg_or_config_def example_args_def)
  have t: "template_of (load_config fresh_world)
     = (JInt 2, JStr DEFAULT_PACKET_HEADER, JStr DEFAULT_PACKET_FOOTER)"
    by (simp add: template_of_def load_config_def fresh_world_def dict_get_default_def)
  have s1: "fst (manual_set_color example_int16 writable_fs (steady_host [example_dev])
                   example_args fresh_world) = Success"
    by code_simp
  have s2: "fst (manual_set_color example_int16 writable_fs unplugging_host example_args
                   fresh_world) = SendFailed"
    by code_simp
  have s3: "fst (manual_set_color example_int16 full_fs (steady_host [example_dev])
                   example_args fresh_world) = SuccessNotSaved OtherException"
    by code_simp
  have r: "manual_set_color example_int16 fs host example_args fresh_world
             = (fst (manual_set_color example_int16 fs host example_args fresh_world),
                snd (manual_set_color example_int16 fs host example_args fresh_world))"
    for fs host
    by simp
  from manual_set_color_persists [OF r v p t, of writable_fs "steady_host [example_dev]",
      THEN conjunct1, THEN mp, OF s1]
  have a: "config_file
     (snd (manual_set_color example_int16 writable_fs (steady_host [example_dev]) example_args
             fresh_world))
     = Stored [(''vid'', JStr ''0416''), (''pid'', JStr ''7399''), (''endpoint'', JInt 2),
               (''packet_header'', JStr DEFAULT_PACKET_HEADER),
               (''packet_footer'', JStr DEFAULT_PACKET_FOOTER)]" .
  have ns: "\<not> printed_success
              (fst (manual_set_color example_int16 writable_fs unplugging_host example_args
                      fresh_world))"
    using s2 by simp
  from manual_set_color_persists [OF r v p t, of writable_fs unplugging_host,
      THEN conjunct2, THEN conjunct1, THEN mp, OF ns]
  have b: "config_file
     (snd (manual_set_color example_int16 writable_fs unplugging_host example_args fresh_world))
     = config_file fresh_world" .
  have ps: "printed_success
              (fst (manual_set_color example_int16 full_fs (steady_host [example_dev])
                      example_args fresh_world))"
    using s3 by simp
  from manual_set_color_persists [OF r v p t, of full_fs "steady_host [example_dev]",
      THEN conjunct2, THEN conjunct2, THEN conjunct2, THEN mp, OF ps]
  have c: "config_file
     (snd (manual_set_color example_int16 full_fs (steady_host [example_dev]) example_args
             fresh_world)) = Corrupted"
    by (simp add: full_fs_def)
  from s1 a s2 b s3 c show ?thesis by (intro conjI)
qed

text \<open>
  C7 as stated fails: when the configuration file cannot be opened for writing, the send
  succeeds (one write, the success message is printed), the error of \<^verbatim>\<open>save_config\<close> is
  caught, and no configuration is persisted.
\<close>

theorem send_succeeds_not_persisted_counterexample:
  "fst (send_color_packet (steady_host [example_dev]) example_controller ''FF0000''
          DEFAULT_PACKET_HEADER DEFAULT_PACKET_FOOTER
          \<lparr>usb_log = [Find 1046 29593, SetConfiguration example_dev], config_file = NoFile\<rparr>)
     = Inr True \<and>
   fst (manual_set_color example_int16 readonly_fs (steady_host [example_dev]) example_args
          fresh_world) = SuccessNotSaved OtherException \<and>
   config_file
     (snd (manual_set_color example_int16 readonly_fs (steady_host [example_dev]) example_args
             fresh_world)) = NoFile"
  by code_simp

text \<open>
  C8 (as amended). The default header is \<^verbatim>\<open>018500000014030400\<close>; the default footer has
  104 hexadecimal digits: 26 zeros, then \<^verbatim>\<open>180000\<close>, then 72 zeros; and with no readable
  configuration file the command uses endpoint 2 and these two defaults.
\<close>

theorem default_template:
  "DEFAULT_PACKET_HEADER = ''018500000014030400'' \<and>
   length DEFAULT_PACKET_FOOTER = 104 \<and>
   DEFAULT_PACKET_FOOTER = replicate 26 CHR ''0'' @ ''180000'' @ replicate 72 CHR ''0'' \<and>
   (config_file w = NoFile \<or> config_file w = Corrupted \<longrightarrow>
      template_of (load_config w)
        = (JInt 2, JStr DEFAULT_PACKET_HEADER, JStr DEFAULT_PACKET_FOOTER))"
proof (intro conjI impI)
  show "DEFAULT_PACKET_HEADER = ''018500000014030400''" by (simp add: DEFAULT_PACKET_HEADER_def)
  show "length DEFAULT_PACKET_FOOTER = 104" by code_simp
  show "DEFAULT_PACKET_FOOTER = replicate 26 CHR ''0'' @ ''180000'' @ replicate 72 CHR ''0''"
    by code_simp
  assume "config_file w = NoFile \<or> config_file w = Corrupted"
  then have "load_config w = []" by (auto simp: load_config_def)
  then show "template_of (load_config w)
        = (JInt 2, JStr DEFAULT_PACKET_HEADER, JStr DEFAULT_PACKET_FOOTER)"
    by (simp add: template_of_def dict_get_default_def)
qed

theorem default_template_witness:
  "config_file fresh_world = NoFile \<and>
   template_of (load_config fresh_world)
     = (JInt 2, JStr DEFAULT_PACKET_HEADER, JStr DEFAULT_PACKET_FOOTER)"
proof -
  have h: "config_file fresh_world = NoFile" by (simp add: fresh_world_def)
  then have "config_file fresh_world = NoFile \<or> config_file fresh_world = Corrupted" by simp
  from default_template [of fresh_world, THEN conjunct2, THEN conjunct2, THEN conjunct2,
      rule_format, OF this] h
  show ?thesis by (intro conjI)
qed

text \<open>
  C8 as stated fails: the default footer has not 107 hexadecimal digits. (A footer of odd
  length would make every default payload undecodable, the header and colour being 24
  digits.)
\<close>

theorem default_footer_length_counterexample:
  "length DEFAULT_PACKET_FOOTER \<noteq> 107"
  by code_simp

section \<open>The \<^verbatim>\<open>scan\<close> command (\<^verbatim>\<open>scan_devices\<close>)\<close>

lemma scan_loop_rows:
  assumes "\<And>log. get_string host log = gs"
  shows "fst (scan_loop host devs w) = List.map_filter (spec_scan_row gs) devs"
proof (induction devs arbitrary: w)
  case Nil
  then show ?case by simp
next
  case (Cons d ds)
  have ih: "fst (scan_loop host ds w1) = List.map_filter (spec_scan_row gs) ds" for w1
    by (rule Cons.IH)
  show ?case
  proof (cases "iProduct d = 0")
    case True
    then have "spec_scan_row gs d = Some (DeviceLine (idVendor d) (idProduct d) ''Unknown'')"
      by (simp add: spec_scan_row_def)
    with True ih [of w] show ?thesis
      by (simp add: split_beta)
  next
    case False
    define w1 where "w1 = w\<lparr>usb_log := usb_log w @ [GetString d (iProduct d)]\<rparr>"
    have g: "usb_util_get_string host d (iProduct d) w = (gs d (iProduct d), w1)"
      by (simp add: usb_util_get_string_def assms w1_def)
    show ?thesis
    proof (cases "gs d (iProduct d)")
      case (Inl e)
      with False have "spec_scan_row gs d = None" by (simp add: spec_scan_row_def)
      with False g Inl ih [of w1] show ?thesis by simp
    next
      case (Inr name)
      with False have "spec_scan_row gs d = Some (DeviceLine (idVendor d) (idProduct d) name)"
        by (simp add: spec_scan_row_def)
      with False g Inr ih [of w1] show ?thesis by (simp add: split_beta)
    qed
  qed
qed

lemma scan_loop_length: "length (fst (scan_loop host devs w)) \<le> length devs"
proof (induction devs arbitrary: w)
  case Nil
  then show ?case by simp
next
  case (Cons d ds)
  have a: "length (fst (scan_loop host ds w1)) \<le> length ds" for w1 by (rule Cons.IH)
  show ?case
  proof (cases "iProduct d = 0")
    case True
    with a [of w] show ?thesis by (simp add: split_beta)
  next
    case False
    obtain r w1 where g: "usb_util_get_string host d (iProduct d) w = (r, w1)" by fastforce
    with False a [of w1] show ?thesis by (cases r) (simp_all add: split_beta)
  qed
qed

text \<open>
  C9 (as amended). When the host lists the devices, \<^verbatim>\<open>scan_devices\<close> never fails, whatever
  the reads of the string descriptors do: it prints the two heading lines, at most one line
  per device, and the closing line when it listed none. With a host that answers the reads
  the same way at every moment, a device without product string is listed as "Unknown", a
  device whose read raises is left out of the listing, and every other device is listed
  with its product string. With no device the listing is empty, and that is no error.
\<close>

theorem scan_devices_swallows:
  assumes "enumerate_devices host (usb_log w) = Inr devs"
  shows "(\<exists>printed. fst (scan_devices host w) =
            Inr ([HeaderLine, SeparatorLine] @ printed
                 @ (if printed = [] then [NoDevicesLine] else [])) \<and>
            length printed \<le> length devs) \<and>
         ((\<forall>log. get_string host log = gs) \<longrightarrow>
            fst (scan_devices host w) =
              Inr ([HeaderLine, SeparatorLine] @ List.map_filter (spec_scan_row gs) devs
                   @ (if List.map_filter (spec_scan_row gs) devs = [] then [NoDevicesLine]
                      else []))) \<and>
         (devs = [] \<longrightarrow> fst (scan_devices host w) = Inr [HeaderLine, SeparatorLine, NoDevicesLine])"
proof -
  define w1 where "w1 = w\<lparr>usb_log := usb_log w @ [FindAll]\<rparr>"
  have out: "fst (scan_devices host w) =
      Inr ([HeaderLine, SeparatorLine] @ fst (scan_loop host devs w1)
           @ (if fst (scan_loop host devs w1) = [] then [NoDevicesLine] else []))"
    using assms by (simp add: scan_devices_def usb_core_find_all_def w1_def split_beta Let_def)
  have c1: "\<exists>printed. fst (scan_devices host w) =
            Inr ([HeaderLine, SeparatorLine] @ printed
                 @ (if printed = [] then [NoDevicesLine] else [])) \<and>
            length printed \<le> length devs"
    using out scan_loop_length [of host devs w1] by blast
  have c2: "(\<forall>log. get_string host log = gs) \<longrightarrow>
            fst (scan_devices host w) =
              Inr ([HeaderLine, SeparatorLine] @ List.map_filter (spec_scan_row gs) devs
                   @ (if List.map_filter (spec_scan_row gs) devs = [] then [NoDevicesLine]
                      else []))"
  proof
    assume "\<forall>log. get_string host log = gs"
    then have "fst (scan_loop host devs w1) = List.map_filter (spec_scan_row gs) devs"
      by (intro scan_loop_rows) simp
    with out show "fst (scan_devices host w) =
              Inr ([HeaderLine, SeparatorLine] @ List.map_filter (spec_scan_row gs) devs
                   @ (if List.map_filter (spec_scan_row gs) devs = [] then [NoDevicesLine]
                      else []))" by simp
  qed
  have c3: "devs = [] \<longrightarrow> fst (scan_devices host w) = Inr [HeaderLine, SeparatorLine, NoDevicesLine]"
    using out by simp
  from c1 c2 c3 show ?thesis by (intro conjI)
qed

theorem scan_devices_swallows_witness:
  "enumerate_devices
     (unreadable_host [example_dev, example_dev\<lparr>iProduct := 0, address := 2\<rparr>])
     (usb_log fresh_world) = Inr [example_dev, example_dev\<lparr>iProduct := 0, address := 2\<rparr>] \<and>
   fst (scan_devices (unreadable_host [example_dev, example_dev\<lparr>iProduct := 0, address := 2\<rparr>])
          fresh_world)
     = Inr [HeaderLine, SeparatorLine, DeviceLine 1046 29593 ''Unknown''] \<and>
   fst (scan_devices (steady_host []) fresh_world)
     = Inr [HeaderLine, SeparatorLine, NoDevicesLine]"
proof -
  let ?devs = "[example_dev, example_dev\<lparr>iProduct := 0, address := 2\<rparr>]"
  have e: "enumerate_devices (unreadable_host ?devs) (usb_log fresh_world) = Inr ?devs"
    by (simp add: unreadable_host_def steady_host_def)
  have g: "\<forall>log. get_string (unreadable_host ?devs) log = (\<lambda>d i. Inl USBError)"
    by (simp add: unreadable_host_def steady_host_def)
  have rows: "List.map_filter (spec_scan_row (\<lambda>d i. Inl USBError)) ?devs
                = [DeviceLine 1046 29593 ''Unknown'']"
    by (simp add: List.map_filter_def spec_scan_row_def example_dev_def)
  from scan_devices_swallows [OF e, of "\<lambda>d i. Inl USBError", THEN conjunct2, THEN conjunct1,
      THEN mp, OF g]
  have a: "fst (scan_devices (unreadable_host ?devs) fresh_world)
     = Inr [HeaderLine, SeparatorLine, DeviceLine 1046 29593 ''Unknown'']"
    unfolding rows by simp
  have e0: "enumerate_devices (steady_host []) (usb_log fresh_world) = Inr []"
    by (simp add: steady_host_def)
  from scan_devices_swallows [OF e0, of "\<lambda>d i. Inl USBError", THEN conjunct2, THEN conjunct2]
  have b: "fst (scan_devices (steady_host []) fresh_world)
     = Inr [HeaderLine, SeparatorLine, NoDevicesLine]"
    by simp
  from e a b show ?thesis by (intro conjI)
qed

text \<open>
  C9 as stated fails: a device whose product string cannot be read is not listed as
  "Unknown", it is not listed at all. Here the only device has a product string (index 2)
  whose read raises, and the listing holds no device line.
\<close>

theorem scan_devices_unknown_counterexample:
  "iProduct example_dev \<noteq> 0 \<and>
   get_string (unreadable_host [example_dev]) [FindAll] example_dev (iProduct example_dev)
     = Inl USBError \<and>
   scan_devices (unreadable_host [example_dev]) fresh_world
     = (Inr [HeaderLine, SeparatorLine, NoDevicesLine],
        \<lparr>usb_log = [FindAll, GetString example_dev 2], config_file = NoFile\<rparr>)"
  by (simp add: scan_devices_def usb_core_find_all_def usb_util_get_string_def
      unreadable_host_def steady_host_def example_dev_def fresh_world_def)

end
